theory Spec2Isabelle
  imports Main "HOL-Library.Char_ord" "HOL-Library.List_Lexorder"
begin

section \<open>Python values and exceptions\<close>

text \<open>
  The scripts are Python. A \<open>str\<close> is modelled as a HOL \<^typ>\<open>string\<close>, whose characters
  are read as the code points 0 to 255; on that range the class \<open>\d\<close> of the \<open>re\<close>
  module is exactly the ten characters \<open>0\<close> to \<open>9\<close>. Python's \<open>int\<close> is unbounded and is
  modelled as \<^typ>\<open>int\<close>. Exceptions are values: a function that can raise returns
  \<open>exn + 'a\<close>, with \<open>Inl\<close> for the exception. Console output (\<open>print\<close>) is not part of
  the model.
\<close>

datatype exn =
    ValueError string
  | FileNotFoundError string
  | JSONDecodeError
  | UnicodeDecodeError
  | RecursionError
  | TypeError
  | AttributeError
  | OSError
  | CalledProcessError int
  | KeyboardInterrupt

text \<open>
  \<open>isinstance(e, ValueError)\<close>: \<open>json.JSONDecodeError\<close> and \<open>UnicodeDecodeError\<close> are
  subclasses of \<open>ValueError\<close>.
\<close>

fun isinstance_ValueError :: "exn \<Rightarrow> bool" where
  "isinstance_ValueError (ValueError _) = True"
| "isinstance_ValueError JSONDecodeError = True"
| "isinstance_ValueError UnicodeDecodeError = True"
| "isinstance_ValueError _ = False"

fun isinstance_JSONDecodeError :: "exn \<Rightarrow> bool" where
  "isinstance_JSONDecodeError JSONDecodeError = True"
| "isinstance_JSONDecodeError _ = False"

fun isinstance_FileNotFoundError :: "exn \<Rightarrow> bool" where
  "isinstance_FileNotFoundError (FileNotFoundError _) = True"
| "isinstance_FileNotFoundError _ = False"

fun isinstance_CalledProcessError :: "exn \<Rightarrow> bool" where
  "isinstance_CalledProcessError (CalledProcessError _) = True"
| "isinstance_CalledProcessError _ = False"

text \<open>
  \<open>isinstance(e, Exception)\<close>: every class above derives from \<open>Exception\<close> except
  \<open>KeyboardInterrupt\<close>, which derives from \<open>BaseException\<close> only.
\<close>

fun isinstance_Exception :: "exn \<Rightarrow> bool" where
  "isinstance_Exception KeyboardInterrupt = False"
| "isinstance_Exception _ = True"

section \<open>Version Engine (\<open>bump_version.py\<close>, \<open>parse_version\<close> and \<open>increment_version\<close>)\<close>

definition is_digit :: "char \<Rightarrow> bool" where
  "is_digit c = (c \<in> set ''0123456789'')"

definition newline :: char where
  "newline = CHR 0x0A"

text \<open>
  \<open>re.match(r'^(\d+)\.(\d+)\.(\d+)$', version)\<close>, piece by piece. A group \<open>(\d+)\<close> is
  greedy; what follows it in the pattern is never a digit, so only the longest run of
  digits can be part of a match. Without the \<open>MULTILINE\<close> flag, \<open>$\<close> matches at the end
  of the string and also just before a newline that is the last character of the string.
  The result is the three groups, or \<open>None\<close> when there is no match.
\<close>

definition scan_digits :: "string \<Rightarrow> (string \<times> string) option" where
  "scan_digits s =
     (if takeWhile is_digit s = [] then None
      else Some (takeWhile is_digit s, dropWhile is_digit s))"

definition scan_dot :: "string \<Rightarrow> string option" where
  "scan_dot s = (case s of [] \<Rightarrow> None | c # r \<Rightarrow> if c = CHR ''.'' then Some r else None)"

definition at_dollar :: "string \<Rightarrow> bool" where
  "at_dollar s = (s = [] \<or> s = [newline])"

definition semver_match :: "string \<Rightarrow> (string \<times> string \<times> string) option" where
  "semver_match version =
     Option.bind (scan_digits version) (\<lambda>(g1, r1).
     Option.bind (scan_dot r1) (\<lambda>s2.
     Option.bind (scan_digits s2) (\<lambda>(g2, r2).
     Option.bind (scan_dot r2) (\<lambda>s3.
     Option.bind (scan_digits s3) (\<lambda>(g3, r3).
     if at_dollar r3 then Some (g1, g2, g3) else None)))))"

text \<open>\<open>int(s)\<close> on a non-empty string of digits.\<close>

definition digit_value :: "char \<Rightarrow> int" where
  "digit_value c = int (of_char c) - 48"

definition int_of_digits :: "string \<Rightarrow> int" where
  "int_of_digits s = foldl (\<lambda>a c. 10 * a + digit_value c) 0 s"

definition parse_version :: "string \<Rightarrow> exn + (int \<times> int \<times> int)" where
  "parse_version version =
     (case semver_match version of
        None \<Rightarrow> Inl (ValueError (''Invalid semver format: '' @ version))
      | Some (g1, g2, g3) \<Rightarrow> Inr (int_of_digits g1, int_of_digits g2, int_of_digits g3))"

text \<open>\<open>str(n)\<close> as the f-string \<open>f"{n}"\<close> computes it: decimal, no leading zeros.\<close>

definition digit_char :: "nat \<Rightarrow> char" where
  "digit_char d = ''0123456789'' ! d"

fun digits_of_nat :: "nat \<Rightarrow> string" where
  "digits_of_nat n =
     (if n < 10 then [digit_char n] else digits_of_nat (n div 10) @ [digit_char (n mod 10)])"

declare digits_of_nat.simps [simp del]

definition str_of_int :: "int \<Rightarrow> string" where
  "str_of_int i = (if i < 0 then CHR ''-'' # digits_of_nat (nat (- i)) else digits_of_nat (nat i))"

definition format_version :: "int \<Rightarrow> int \<Rightarrow> int \<Rightarrow> string" where
  "format_version major minor patch =
     str_of_int major @ ''.'' @ str_of_int minor @ ''.'' @ str_of_int patch"

definition increment_version :: "string \<Rightarrow> string \<Rightarrow> exn + string" where
  "increment_version version level =
     (case parse_version version of
        Inl e \<Rightarrow> Inl e
      | Inr (major, minor, patch) \<Rightarrow>
          if level = ''patch'' then Inr (format_version major minor (patch + 1))
          else if level = ''minor'' then Inr (format_version major (minor + 1) 0)
          else if level = ''major'' then Inr (format_version (major + 1) 0 0)
          else Inl (ValueError (''Unknown level '' @ [CHR 0x27] @ level @ [CHR 0x27]
                                  @ ''. Use: patch, minor, or major'')))"

text \<open>
  The shape the specification gives for a version string: exactly three groups of one or
  more decimal digits, separated by single dots, with nothing before, between or after.
\<close>

fun split_dots :: "string \<Rightarrow> string list" where
  "split_dots [] = [[]]"
| "split_dots (c # cs) =
     (if c = CHR ''.'' then [] # split_dots cs
      else (case split_dots cs of g # gs \<Rightarrow> (c # g) # gs | [] \<Rightarrow> [[c]]))"

definition digit_group :: "string \<Rightarrow> bool" where
  "digit_group g = (g \<noteq> [] \<and> list_all is_digit g)"

definition well_formed_version :: "string \<Rightarrow> bool" where
  "well_formed_version s =
     (case split_dots s of [a, b, c] \<Rightarrow> digit_group a \<and> digit_group b \<and> digit_group c
      | _ \<Rightarrow> False)"

section \<open>The file system\<close>

text \<open>
  A path is the list of its components, as \<open>pathlib\<close> keeps it (\<open>Path.parts\<close>). The file
  system maps paths to entries: a regular file with its bytes, or a directory. It is an
  association list in which the first binding of a path counts. Symbolic links and special
  files are outside the model.
\<close>

type_synonym path = "string list"

datatype entry = File string | Dir

type_synonym filesystem = "(path \<times> entry) list"

definition stat :: "filesystem \<Rightarrow> path \<Rightarrow> entry option" where
  "stat fs p = map_of fs p"

definition path_exists :: "filesystem \<Rightarrow> path \<Rightarrow> bool" where
  "path_exists fs p = (stat fs p \<noteq> None)"

definition is_file :: "filesystem \<Rightarrow> path \<Rightarrow> bool" where
  "is_file fs p = (case stat fs p of Some (File _) \<Rightarrow> True | _ \<Rightarrow> False)"

definition is_dir :: "filesystem \<Rightarrow> path \<Rightarrow> bool" where
  "is_dir fs p = (stat fs p = Some Dir)"

text \<open>\<open>Path.name\<close>: the last component, or the empty string.\<close>

definition path_name :: "path \<Rightarrow> string" where
  "path_name p = (if p = [] then [] else last p)"

text \<open>\<open>str(path)\<close>: the components joined by \<open>/\<close>.\<close>

fun str_of_path :: "path \<Rightarrow> string" where
  "str_of_path [] = ''.''"
| "str_of_path [c] = c"
| "str_of_path (c # cs) = c @ ''/'' @ str_of_path cs"

text \<open>\<open>below d p\<close>: the path \<open>p\<close> lies under the directory \<open>d\<close>, at any depth.\<close>

definition below :: "path \<Rightarrow> path \<Rightarrow> bool" where
  "below d p = (length d < length p \<and> take (length d) p = d)"

text \<open>
  \<open>d.rglob(name)\<close> for a name without wildcards: every existing entry under \<open>d\<close>, at any
  depth, whose last component is \<open>name\<close>. \<open>pathlib\<close> tests that the entry exists, not
  that it is a regular file, and yields each path once.
\<close>

definition rglob :: "filesystem \<Rightarrow> path \<Rightarrow> string \<Rightarrow> path list" where
  "rglob fs d name = filter (\<lambda>p. below d p \<and> path_name p = name) (remdups (map fst fs))"

text \<open>
  Failures of the operating system that the state of the file system does not determine
  (permissions, a full disk, an I/O error) are decided by an oracle, one decision per
  operation and path. A write that fails after \<open>n\<close> bytes leaves those bytes in the file.
\<close>

record faults =
  open_read_fails :: "path \<Rightarrow> bool"
  open_write_fails :: "path \<Rightarrow> bool"
  write_fails_after :: "path \<Rightarrow> nat option"
  replace_fails :: "path \<Rightarrow> path \<Rightarrow> bool"

definition remove_entry :: "filesystem \<Rightarrow> path \<Rightarrow> filesystem" where
  "remove_entry fs p = filter (\<lambda>b. fst b \<noteq> p) fs"

definition put_entry :: "filesystem \<Rightarrow> path \<Rightarrow> entry \<Rightarrow> filesystem" where
  "put_entry fs p e = (p, e) # remove_entry fs p"

text \<open>\<open>open(p, encoding='utf-8')\<close> followed by reading the whole file.\<close>

definition read_bytes :: "faults \<Rightarrow> filesystem \<Rightarrow> path \<Rightarrow> exn + string" where
  "read_bytes flt fs p =
     (case stat fs p of
        None \<Rightarrow> Inl (FileNotFoundError (str_of_path p))
      | Some Dir \<Rightarrow> Inl OSError
      | Some (File bytes) \<Rightarrow> if open_read_fails flt p then Inl OSError else Inr bytes)"

text \<open>\<open>with open(p, 'w', encoding='utf-8') as f: f.write(text)\<close>.\<close>

definition write_bytes :: "faults \<Rightarrow> filesystem \<Rightarrow> path \<Rightarrow> string \<Rightarrow> (exn + unit) \<times> filesystem" where
  "write_bytes flt fs p text =
     (if is_dir fs p \<or> open_write_fails flt p then (Inl OSError, fs)
      else case write_fails_after flt p of
             Some n \<Rightarrow> (Inl OSError, put_entry fs p (File (take n text)))
           | None \<Rightarrow> (Inr (), put_entry fs p (File text)))"

text \<open>
  \<open>src.replace(dst)\<close>, the atomic rename. The scripts only ever rename the temporary file
  they have just written, so a directory as source is answered with an error.
\<close>

definition replace_path :: "faults \<Rightarrow> filesystem \<Rightarrow> path \<Rightarrow> path \<Rightarrow> (exn + unit) \<times> filesystem" where
  "replace_path flt fs src dst =
     (case stat fs src of
        None \<Rightarrow> (Inl (FileNotFoundError (str_of_path src)), fs)
      | Some Dir \<Rightarrow> (Inl OSError, fs)
      | Some (File bytes) \<Rightarrow>
          if is_dir fs dst \<or> replace_fails flt src dst then (Inl OSError, fs)
          else (Inr (), put_entry (remove_entry fs src) dst (File bytes)))"

text \<open>
  \<open>Path.suffix\<close> and \<open>Path.with_suffix\<close> of \<open>pathlib\<close> (Python 3.9 to 3.12):
  \<open>i = name.rfind('.')\<close>, and the suffix is \<open>name[i:]\<close> when \<open>0 < i < len(name) - 1\<close>.
\<close>

fun rfind :: "char \<Rightarrow> string \<Rightarrow> nat option" where
  "rfind c [] = None"
| "rfind c (x # xs) =
     (case rfind c xs of Some i \<Rightarrow> Some (Suc i) | None \<Rightarrow> if x = c then Some 0 else None)"

definition suffix_of :: "string \<Rightarrow> string" where
  "suffix_of name =
     (case rfind CHR ''.'' name of
        None \<Rightarrow> []
      | Some i \<Rightarrow> if 0 < i \<and> i < length name - 1 then drop i name else [])"

definition with_suffix :: "path \<Rightarrow> string \<Rightarrow> exn + path" where
  "with_suffix p sfx =
     (let name = path_name p; old_suffix = suffix_of name in
      if name = [] then Inl (ValueError (str_of_path p @ '' has an empty name''))
      else if old_suffix = [] then Inr (butlast p @ [name @ sfx])
      else Inr (butlast p @ [take (length name - length old_suffix) name @ sfx]))"

section \<open>Template Locator (\<open>bump_version.py\<close>, \<open>find_templates\<close>)\<close>

definition manifest_name :: string where
  "manifest_name = ''devcontainer-template.json''"

text \<open>
  \<open>sorted\<close> on \<open>Path\<close> objects compares them with \<open>PurePath.__lt__\<close>, which compares the
  lists of components; this is the order of \<^typ>\<open>path\<close> as a list of strings.
\<close>

definition find_templates :: "filesystem \<Rightarrow> path \<Rightarrow> exn + path list" where
  "find_templates fs target =
     (if \<not> path_exists fs target then
        Inl (FileNotFoundError (''Target not found: '' @ str_of_path target))
      else if is_file fs target \<and> path_name target = manifest_name then Inr [target]
      else if is_dir fs target then
        (let templates = sort (rglob fs target manifest_name) in
         if templates = [] then Inl (ValueError (''No templates found in '' @ str_of_path target))
         else Inr templates)
      else Inl (ValueError (''Invalid target: '' @ str_of_path target)))"

text \<open>The manifest files under a directory, as the specification describes the result.\<close>

definition manifest_files :: "filesystem \<Rightarrow> path \<Rightarrow> path set" where
  "manifest_files fs d = {p. below d p \<and> path_name p = manifest_name \<and> is_file fs p}"

section \<open>JSON documents\<close>

text \<open>
  The values \<open>json.load\<close> returns. A \<open>dict\<close> keeps its keys in insertion order; a \<open>float\<close>
  is kept as mantissa and binary exponent, of which only the test for zero is used.
\<close>

datatype pyfloat = Finite int int | Infinity | NegInfinity | NaN

datatype pyval =
    PyNone
  | PyBool bool
  | PyInt int
  | PyFloat pyfloat
  | PyStr string
  | PyList "pyval list"
  | PyDict "(string \<times> pyval) list"

text \<open>Truth value testing, as \<open>if not current_version\<close> uses it.\<close>

fun truthy :: "pyval \<Rightarrow> bool" where
  "truthy PyNone = False"
| "truthy (PyBool b) = b"
| "truthy (PyInt i) = (i \<noteq> 0)"
| "truthy (PyFloat f) = (case f of Finite m e \<Rightarrow> m \<noteq> 0 | _ \<Rightarrow> True)"
| "truthy (PyStr s) = (s \<noteq> [])"
| "truthy (PyList xs) = (xs \<noteq> [])"
| "truthy (PyDict d) = (d \<noteq> [])"

text \<open>\<open>data.get(key)\<close>: only a \<open>dict\<close> has the method; a missing key gives \<open>None\<close>.\<close>

fun py_get :: "pyval \<Rightarrow> string \<Rightarrow> exn + pyval" where
  "py_get (PyDict d) key = Inr (case map_of d key of None \<Rightarrow> PyNone | Some v \<Rightarrow> v)"
| "py_get _ key = Inl AttributeError"

text \<open>\<open>data[key] = v\<close> with a string key: an existing key keeps its place.\<close>

fun dict_set :: "(string \<times> pyval) list \<Rightarrow> string \<Rightarrow> pyval \<Rightarrow> (string \<times> pyval) list" where
  "dict_set [] key v = [(key, v)]"
| "dict_set ((k, w) # d) key v = (if k = key then (k, v) # d else (k, w) # dict_set d key v)"

fun py_setitem :: "pyval \<Rightarrow> string \<Rightarrow> pyval \<Rightarrow> exn + pyval" where
  "py_setitem (PyDict d) key v = Inr (PyDict (dict_set d key v))"
| "py_setitem _ key v = Inl TypeError"

text \<open>
  The \<open>json\<close> module is a parameter of the model: \<open>loads\<close> stands for decoding the bytes
  as UTF-8 and parsing them (\<open>json.load\<close>), \<open>dumps\<close> for \<open>json.dump(data, f, indent=2)\<close>. The
  errors of \<open>loads\<close> are \<open>json.JSONDecodeError\<close>, \<open>UnicodeDecodeError\<close> and
  \<open>RecursionError\<close>.
\<close>

datatype load_error = InvalidJson | InvalidUtf8 | NestingTooDeep

fun exn_of_load_error :: "load_error \<Rightarrow> exn" where
  "exn_of_load_error InvalidJson = JSONDecodeError"
| "exn_of_load_error InvalidUtf8 = UnicodeDecodeError"
| "exn_of_load_error NestingTooDeep = RecursionError"

record codec =
  loads :: "string \<Rightarrow> load_error + pyval"
  dumps :: "pyval \<Rightarrow> string"

definition json_load :: "codec \<Rightarrow> faults \<Rightarrow> filesystem \<Rightarrow> path \<Rightarrow> exn + pyval" where
  "json_load cd flt fs p =
     (case read_bytes flt fs p of
        Inl e \<Rightarrow> Inl e
      | Inr bytes \<Rightarrow> (case loads cd bytes of Inl le \<Rightarrow> Inl (exn_of_load_error le) | Inr v \<Rightarrow> Inr v))"

section \<open>Template Updater (\<open>bump_version.py\<close>, \<open>update_template_version\<close>)\<close>

text \<open>
  \<open>increment_version(current_version, level)\<close> on a value read from the manifest:
  \<open>re.match\<close> raises \<open>TypeError\<close> when the value is not a string.
\<close>

definition increment_value :: "pyval \<Rightarrow> string \<Rightarrow> exn + string" where
  "increment_value current_version level =
     (case current_version of PyStr s \<Rightarrow> increment_version s level | _ \<Rightarrow> Inl TypeError)"

text \<open>
  The last part of the \<open>try\<close> block, after the dry-run test: set the field, write the
  temporary file, read it back, rename it over the manifest.
\<close>

definition write_back ::
  "codec \<Rightarrow> faults \<Rightarrow> filesystem \<Rightarrow> path \<Rightarrow> pyval \<Rightarrow> string \<Rightarrow> (exn + bool) \<times> filesystem" where
  "write_back cd flt fs template_file data new_version =
     (case py_setitem data ''version'' (PyStr new_version) of
        Inl e \<Rightarrow> (Inl e, fs)
      | Inr data' \<Rightarrow>
     (case with_suffix template_file ''.tmp'' of
        Inl e \<Rightarrow> (Inl e, fs)
      | Inr temp_file \<Rightarrow>
     (case write_bytes flt fs temp_file (dumps cd data' @ [newline]) of
        (Inl e, fs1) \<Rightarrow> (Inl e, fs1)
      | (Inr _, fs1) \<Rightarrow>
     (case json_load cd flt fs1 temp_file of
        Inl e \<Rightarrow> (Inl e, fs1)
      | Inr _ \<Rightarrow>
     (case replace_path flt fs1 temp_file template_file of
        (Inl e, fs2) \<Rightarrow> (Inl e, fs2)
      | (Inr _, fs2) \<Rightarrow> (Inr True, fs2))))))"

text \<open>
  The body of the \<open>try\<close> block. The inner \<open>try\<close> around \<open>increment_version\<close> catches
  \<open>ValueError\<close> only.
\<close>

definition update_try ::
  "codec \<Rightarrow> faults \<Rightarrow> filesystem \<Rightarrow> path \<Rightarrow> string \<Rightarrow> bool \<Rightarrow> (exn + bool) \<times> filesystem" where
  "update_try cd flt fs template_file level dry_run =
     (case json_load cd flt fs template_file of
        Inl e \<Rightarrow> (Inl e, fs)
      | Inr data \<Rightarrow>
     (case py_get data ''version'' of
        Inl e \<Rightarrow> (Inl e, fs)
      | Inr current_version \<Rightarrow>
          if \<not> truthy current_version then (Inr False, fs)
          else
     (case increment_value current_version level of
        Inl e \<Rightarrow> if isinstance_ValueError e then (Inr False, fs) else (Inl e, fs)
      | Inr new_version \<Rightarrow>
          if dry_run then (Inr True, fs)
          else write_back cd flt fs template_file data new_version)))"

text \<open>
  The function with its two handlers, \<open>except json.JSONDecodeError\<close> and
  \<open>except Exception\<close>; an exception that neither catches leaves the function.
\<close>

definition update_template_version ::
  "codec \<Rightarrow> faults \<Rightarrow> filesystem \<Rightarrow> path \<Rightarrow> string \<Rightarrow> bool \<Rightarrow> (exn + bool) \<times> filesystem" where
  "update_template_version cd flt fs template_file level dry_run =
     (case update_try cd flt fs template_file level dry_run of
        (Inr b, fs') \<Rightarrow> (Inr b, fs')
      | (Inl e, fs') \<Rightarrow>
          if isinstance_JSONDecodeError e then (Inr False, fs')
          else if isinstance_Exception e then (Inr False, fs')
          else (Inl e, fs'))"

section \<open>Subprocesses\<close>

text \<open>
  A child process is an oracle from the argument vector to what happened: the program
  ran and exited with a code, or it was not found. Every attempt is recorded, in order.
  \<open>run_checked\<close> is \<open>subprocess.run(argv, check=True)\<close>.
\<close>

datatype proc_result = Exited int | NotFound

type_synonym runner = "string list \<Rightarrow> proc_result"

type_synonym calls = "string list list"

definition run_checked :: "runner \<Rightarrow> string list \<Rightarrow> calls \<Rightarrow> (exn + unit) \<times> calls" where
  "run_checked run argv log =
     (case run argv of
        NotFound \<Rightarrow> (Inl (FileNotFoundError (concat (take 1 argv))), log @ [argv])
      | Exited rc \<Rightarrow>
          if rc \<noteq> 0 then (Inl (CalledProcessError rc), log @ [argv])
          else (Inr (), log @ [argv]))"

section \<open>Commit step and entry point of \<open>bump_version.py\<close>\<close>








section \<open>Publish Orchestrator (\<open>publish_templates.py\<close>, \<open>main\<close>)\<close>

record publish_args =
  pub_target :: string
  pub_update_version :: bool
  pub_level :: string
  pub_namespace :: string
  pub_registry :: string
  pub_dry_run :: bool

text \<open>\<open>sys.executable\<close> and \<open>str(SCRIPT_DIR / "bump_version.py")\<close>.\<close>

record runtime =
  sys_executable :: string
  bump_script :: string

definition bump_cmd :: "runtime \<Rightarrow> publish_args \<Rightarrow> string list" where
  "bump_cmd rt args =
     [sys_executable rt, bump_script rt, ''--level'', pub_level args, ''--target'', pub_target args]
       @ [if pub_dry_run args then ''--dry-run'' else ''--commit'']"

definition publish_cmd :: "publish_args \<Rightarrow> string list" where
  "publish_cmd args =
     [''devcontainer'', ''templates'', ''publish'', pub_target args,
      ''-r'', pub_registry args, ''-n'', pub_namespace args]"

definition bump_step :: "runner \<Rightarrow> runtime \<Rightarrow> publish_args \<Rightarrow> (exn + unit) \<times> calls" where
  "bump_step run rt args =
     (if pub_update_version args then run_checked run (bump_cmd rt args) [] else (Inr (), []))"

definition publish_main :: "runner \<Rightarrow> runtime \<Rightarrow> publish_args \<Rightarrow> (exn + int) \<times> calls" where
  "publish_main run rt args =
     (case bump_step run rt args of
        (Inl e, log) \<Rightarrow> if isinstance_CalledProcessError e then (Inr 1, log) else (Inl e, log)
      | (Inr _, log) \<Rightarrow>
          if \<not> pub_dry_run args then
            (case run_checked run (publish_cmd args) log of
               (Inl e, log') \<Rightarrow>
                 if isinstance_CalledProcessError e then (Inr 1, log')
                 else if isinstance_FileNotFoundError e then (Inr 1, log')
                 else (Inl e, log')
             | (Inr _, log') \<Rightarrow> (Inr 0, log'))
          else (Inr 0, log))"

text \<open>
  What the \<open>json\<close> module promises for a document: the text \<open>json.dump\<close> writes for it,
  with the newline the script adds, is read by \<open>json.load\<close> as an equal document.
\<close>

definition reads_back :: "codec \<Rightarrow> pyval \<Rightarrow> bool" where
  "reads_back cd doc = (loads cd (dumps cd doc @ [newline]) = Inr doc)"

section \<open>Examples\<close>

text \<open>Two templates in sibling directories, one name a prefix of the other.\<close>

definition fsA :: filesystem where
  "fsA = [([''t''], Dir), ([''t'', ''a''], Dir), ([''t'', ''a-b''], Dir),
          ([''t'', ''a-b'', ''devcontainer-template.json''], File ''{}''),
          ([''t'', ''a'', ''devcontainer-template.json''], File ''{}'')]"

text \<open>A directory whose only entry is a directory with the manifest's name.\<close>

definition fsB :: filesystem where
  "fsB = [([''t''], Dir), ([''t'', ''devcontainer-template.json''], Dir)]"

text \<open>
  One manifest, before and after a patch bump, with the text \<open>json.dump\<close> writes for it
  at \<open>indent=2\<close>, and a codec that knows these two documents.
\<close>

definition doc_before :: "(string \<times> pyval) list" where
  "doc_before = [(''id'', PyStr ''t''), (''version'', PyStr ''1.0.0'')]"

definition doc_after :: "(string \<times> pyval) list" where
  "doc_after = [(''id'', PyStr ''t''), (''version'', PyStr ''1.0.1'')]"

definition text_before :: string where
  \<open>text_before = ''{"id": "t", "version": "1.0.0"}''\<close>

definition text_after :: string where
  \<open>text_after = ''{'' @ [newline] @ ''  "id": "t",'' @ [newline]
                  @ ''  "version": "1.0.1"'' @ [newline] @ ''}''\<close>

definition example_codec :: codec where
  "example_codec =
     \<lparr> loads = (\<lambda>s. if s = text_before then Inr (PyDict doc_before)
                     else if s = text_after @ [newline] then Inr (PyDict doc_after)
                     else Inl InvalidJson),
       dumps = (\<lambda>v. if v = PyDict doc_after then text_after else ''null'') \<rparr>"

definition manifest_path :: path where
  "manifest_path = [''t'', ''devcontainer-template.json'']"


definition fsC :: filesystem where
  "fsC = [([''t''], Dir), (manifest_path, File text_before)]"

definition no_faults :: faults where
  "no_faults =
     \<lparr> open_read_fails = (\<lambda>p. False), open_write_fails = (\<lambda>p. False),
       write_fails_after = (\<lambda>p. None), replace_fails = (\<lambda>src dst. False) \<rparr>"




text \<open>A run of \<open>publish_templates.py -u\<close> in which the version bump exits with code 1.\<close>

definition bump_fails :: runner where
  "bump_fails = (\<lambda>argv. if take 1 argv = [''python3''] then Exited 1 else Exited 0)"

definition args_P :: publish_args where
  "args_P = \<lparr> pub_target = ''./src'', pub_update_version = True, pub_level = ''patch'',
              pub_namespace = ''owner/repo'', pub_registry = ''ghcr.io'', pub_dry_run = False \<rparr>"

definition rt_P :: runtime where
  "rt_P = \<lparr> sys_executable = ''python3'', bump_script = ''scripts/bump_version.py'' \<rparr>"

section \<open>Properties of the Version Engine\<close>




























lemma parse_version_error:
  "parse_version s = Inl e \<Longrightarrow> e = ValueError (''Invalid semver format: '' @ s)"
  by (auto simp: parse_version_def split: option.splits)







text \<open>
  Claim C3 says that \<open>parse_version\<close> succeeds exactly on the strings of three
  dot-separated digit groups and fails on every other string, a trailing newline included.
  By \<open>parse_version_succeeds_iff\<close> the function accepts one more family of strings: a
  well-formed version followed by a single newline, because \<open>$\<close> matches before a final
  newline. The version \<open>1.2.3\<close> followed by a newline is not well formed, yet it parses
  to (1, 2, 3), and a patch bump of it gives \<open>1.2.4\<close>.
\<close>

theorem parse_version_trailing_newline:
  "parse_version (''1.2.3'' @ [newline]) = Inr (1, 2, 3)
   \<and> \<not> well_formed_version (''1.2.3'' @ [newline])
   \<and> increment_version (''1.2.3'' @ [newline]) ''patch'' = Inr ''1.2.4''"
  by code_simp

section \<open>Properties of the Template Locator\<close>

lemma stat_put_entry: "stat (put_entry fs p e) q = (if q = p then Some e else stat fs q)"
  by (induction fs) (auto simp: stat_def put_entry_def remove_entry_def)

lemma stat_remove_entry: "stat (remove_entry fs p) q = (if q = p then None else stat fs q)"
  by (induction fs) (auto simp: stat_def remove_entry_def)

lemma set_rglob:
  "set (rglob fs d name) = {p. path_exists fs p \<and> below d p \<and> path_name p = name}"
proof -
  have "fst ` set fs = {p. path_exists fs p}"
    by (auto simp: path_exists_def stat_def map_of_eq_None_iff)
  then show ?thesis by (auto simp: rglob_def)
qed

lemma distinct_rglob: "distinct (rglob fs d name)"
  by (simp add: rglob_def)

lemma is_file_exists: "is_file fs p \<Longrightarrow> path_exists fs p"
  by (auto simp: is_file_def path_exists_def split: option.splits)

lemma is_dir_not_file: "is_dir fs p \<Longrightarrow> \<not> is_file fs p"
  by (simp add: is_dir_def is_file_def)

lemma is_dir_exists: "is_dir fs p \<Longrightarrow> path_exists fs p"
  by (simp add: is_dir_def path_exists_def)

lemma find_templates_dir:
  assumes "is_dir fs target"
  shows "find_templates fs target =
           (if rglob fs target manifest_name = []
            then Inl (ValueError (''No templates found in '' @ str_of_path target))
            else Inr (sort (rglob fs target manifest_name)))"
proof -
  have "sort (rglob fs target manifest_name) = [] \<longleftrightarrow> rglob fs target manifest_name = []"
    by (metis length_0_conv length_sort)
  with assms show ?thesis
    by (simp add: find_templates_def is_dir_exists is_dir_not_file Let_def)
qed

text \<open>
  Claim C4, as amended. For every existing directory that contains at least one file with
  the manifest's name at any depth, \<open>find_templates\<close> succeeds; the list it returns has
  no duplicates, is sorted in the order of paths, which compares the component lists
  (component by component, each component as a string) and not the joined path strings,
  and the regular files in it are exactly the files with the manifest's name under the
  directory.
\<close>

theorem find_templates_directory:
  assumes "is_dir fs target" and "p \<in> manifest_files fs target"
  shows "\<exists>ts. find_templates fs target = Inr ts \<and> sorted ts \<and> distinct ts
              \<and> {q \<in> set ts. is_file fs q} = manifest_files fs target"
proof -
  let ?ts = "sort (rglob fs target manifest_name)"
  from assms(2) have "p \<in> set (rglob fs target manifest_name)"
    by (simp add: manifest_files_def set_rglob is_file_exists)
  then have "rglob fs target manifest_name \<noteq> []" by auto
  with assms(1) have "find_templates fs target = Inr ?ts" by (simp add: find_templates_dir)
  moreover have "sorted ?ts" by simp
  moreover have "distinct ?ts" by (simp add: distinct_rglob)
  moreover have "{q \<in> set ?ts. is_file fs q} = manifest_files fs target"
    by (auto simp: manifest_files_def set_rglob is_file_exists)
  ultimately show ?thesis by blast
qed

text \<open>
  An instance: the two templates of \<open>fsA\<close>, in the order of their components.
\<close>

theorem find_templates_directory_witness:
  "is_dir fsA [''t'']
   \<and> [''t'', ''a'', ''devcontainer-template.json''] \<in> manifest_files fsA [''t'']
   \<and> find_templates fsA [''t'']
       = Inr [[''t'', ''a'', ''devcontainer-template.json''],
              [''t'', ''a-b'', ''devcontainer-template.json'']]
   \<and> (\<exists>ts. find_templates fsA [''t''] = Inr ts \<and> sorted ts \<and> distinct ts
              \<and> {q \<in> set ts. is_file fsA q} = manifest_files fsA [''t''])"
proof -
  have d: "is_dir fsA [''t'']" by code_simp
  have m: "[''t'', ''a'', ''devcontainer-template.json''] \<in> manifest_files fsA [''t'']"
    unfolding manifest_files_def by (simp, code_simp)
  have e: "find_templates fsA [''t'']
       = Inr [[''t'', ''a'', ''devcontainer-template.json''],
              [''t'', ''a-b'', ''devcontainer-template.json'']]"
    by code_simp
  from find_templates_directory[OF d m] d m e show ?thesis by blast
qed

text \<open>
  Claim C4 as the specification states it, with the order taken on the full path strings,
  fails on \<open>fsA\<close>: \<open>find_templates\<close> returns \<open>t/a/...\<close> before \<open>t/a-b/...\<close>, and as
  strings the second is the smaller one, since \<open>-\<close> comes before \<open>/\<close>.
\<close>

theorem find_templates_not_string_sorted:
  "find_templates fsA [''t''] = Inr [[''t'', ''a'', ''devcontainer-template.json''], [''t'', ''a-b'', ''devcontainer-template.json'']]
   \<and> is_file fsA [''t'', ''a'', ''devcontainer-template.json'']
   \<and> is_file fsA [''t'', ''a-b'', ''devcontainer-template.json'']
   \<and> str_of_path [''t'', ''a-b'', ''devcontainer-template.json''] < str_of_path [''t'', ''a'', ''devcontainer-template.json'']
   \<and> \<not> sorted (map str_of_path [[''t'', ''a'', ''devcontainer-template.json''], [''t'', ''a-b'', ''devcontainer-template.json'']])"
  by code_simp

lemma find_templates_not_found:
  "(\<exists>msg. find_templates fs target = Inl (FileNotFoundError msg)) \<longleftrightarrow> \<not> path_exists fs target"
  by (auto simp: find_templates_def Let_def)

lemma find_templates_no_templates:
  "find_templates fs target = Inl (ValueError (''No templates found in '' @ str_of_path target))
     \<longleftrightarrow> is_dir fs target \<and> rglob fs target manifest_name = []"
proof (cases "is_dir fs target")
  case True
  then show ?thesis by (simp add: find_templates_dir)
next
  case False
  then show ?thesis by (auto simp: find_templates_def Let_def)
qed

lemma find_templates_invalid_target:
  "find_templates fs target = Inl (ValueError (''Invalid target: '' @ str_of_path target))
     \<longleftrightarrow> is_file fs target \<and> path_name target \<noteq> manifest_name"
proof (cases "is_dir fs target")
  case True
  then show ?thesis by (simp add: find_templates_dir is_dir_not_file)
next
  case False
  have "path_exists fs target \<Longrightarrow> \<not> is_dir fs target \<Longrightarrow> is_file fs target"
    by (auto simp: path_exists_def is_dir_def is_file_def split: option.splits entry.splits)
  with False show ?thesis
    by (auto simp: find_templates_def Let_def is_file_exists)
qed

text \<open>
  Claim C5 says that \<open>find_templates\<close> fails with "No templates found" exactly when the
  target is a directory with no file of the manifest's name under it. On \<open>fsB\<close> the
  target is such a directory, yet the call succeeds: \<open>rglob\<close> also yields a directory of
  that name, and \<open>find_templates\<close> does not filter its result.
\<close>

theorem find_templates_returns_directory:
  "is_dir fsB [''t'']
   \<and> manifest_files fsB [''t''] = {}
   \<and> find_templates fsB [''t''] = Inr [[''t'', ''devcontainer-template.json'']]"
proof -
  have "\<And>p. \<not> is_file fsB p" by (simp add: is_file_def stat_def fsB_def)
  then have "manifest_files fsB [''t''] = {}" by (simp add: manifest_files_def)
  moreover have "is_dir fsB [''t'']" by code_simp
  moreover have "find_templates fsB [''t''] = Inr [[''t'', ''devcontainer-template.json'']]" by code_simp
  ultimately show ?thesis by simp
qed

section \<open>Properties of the Template Updater\<close>


lemma write_bytes_ok:
  "write_bytes flt fs p text = (Inr u, fs') \<Longrightarrow> stat fs' p = Some (File text)"
  by (auto simp: write_bytes_def stat_put_entry split: if_splits option.splits)


lemma replace_path_ok:
  "replace_path flt fs src dst = (Inr u, fs') \<Longrightarrow> stat fs' dst = stat fs src"
  by (auto simp: replace_path_def stat_put_entry split: option.splits entry.splits if_splits)
















lemma increment_version_raises: "increment_version v level = Inl e \<Longrightarrow> isinstance_ValueError e"
  by (auto simp: increment_version_def parse_version_def split: sum.splits option.splits if_splits)









lemma map_of_dict_set: "map_of (dict_set d key v) = (map_of d)(key \<mapsto> v)"
  by (induction d key v rule: dict_set.induct) auto

lemma write_back_ok:
  assumes "write_back cd flt fs template_file (PyDict d) new_version = (Inr True, fs')"
  shows "stat fs' template_file
           = Some (File (dumps cd (PyDict (dict_set d ''version'' (PyStr new_version))) @ [newline]))"
  using assms
  by (auto simp: write_back_def split: sum.splits prod.splits
      dest!: write_bytes_ok replace_path_ok)

lemma update_try_ok:
  assumes "update_try cd flt fs template_file level False = (Inr True, fs')"
    and "stat fs template_file = Some (File bytes)"
    and "loads cd bytes = Inr (PyDict d)"
    and "map_of d ''version'' = Some (PyStr v)"
  shows "\<exists>new. increment_version v level = Inr new
           \<and> write_back cd flt fs template_file (PyDict d) new = (Inr True, fs')"
proof -
  from assms(1) obtain data where jl: "json_load cd flt fs template_file = Inr data"
    by (auto simp: update_try_def split: sum.splits)
  with assms(2,3) have data: "data = PyDict d"
    by (auto simp: json_load_def read_bytes_def split: if_splits sum.splits)
  from assms(4) have get: "py_get (PyDict d) ''version'' = Inr (PyStr v)" by simp
  from assms(1) jl data get show ?thesis
    by (auto simp: update_try_def increment_value_def split: sum.splits if_splits)
qed

text \<open>
  Claim C7. For every manifest that holds a JSON object whose version is a string the
  level can increment, after a run of \<open>update_template_version\<close> with \<open>dry_run = False\<close>
  that returns \<open>True\<close> the manifest on disk holds a JSON object whose \<open>version\<close> is the
  incremented version and in which every other key is bound as before; the bytes are the
  text \<open>json.dump\<close> writes for that object, and one newline. The \<open>json\<close> module
  is taken to read back the document it wrote (\<open>reads_back\<close>); the script checks only
  that the text it wrote parses.
\<close>

theorem successful_update_on_disk:
  assumes "stat fs template_file = Some (File bytes)"
    and "loads cd bytes = Inr (PyDict d)"
    and "map_of d ''version'' = Some (PyStr v)"
    and "increment_version v level = Inr new"
    and "reads_back cd (PyDict (dict_set d ''version'' (PyStr new)))"
    and "update_template_version cd flt fs template_file level False = (Inr True, fs')"
  shows "\<exists>bytes' d'. stat fs' template_file = Some (File bytes')
           \<and> bytes' = dumps cd (PyDict d') @ [newline]
           \<and> loads cd bytes' = Inr (PyDict d')
           \<and> map_of d' ''version'' = Some (PyStr new)
           \<and> (\<forall>key. key \<noteq> ''version'' \<longrightarrow> map_of d' key = map_of d key)"
proof -
  let ?d' = "dict_set d ''version'' (PyStr new)"
  let ?bytes' = "dumps cd (PyDict ?d') @ [newline]"
  from assms(6) have "update_try cd flt fs template_file level False = (Inr True, fs')"
    by (auto simp: update_template_version_def split: prod.splits sum.splits if_splits)
  from update_try_ok[OF this assms(1-3)] assms(4)
  have "write_back cd flt fs template_file (PyDict d) new = (Inr True, fs')" by auto
  then have "stat fs' template_file = Some (File ?bytes')" by (rule write_back_ok)
  moreover from assms(5) have "loads cd ?bytes' = Inr (PyDict ?d')" by (simp add: reads_back_def)
  moreover have "map_of ?d' ''version'' = Some (PyStr new)" by (simp add: map_of_dict_set)
  moreover have "\<forall>key. key \<noteq> ''version'' \<longrightarrow> map_of ?d' key = map_of d key"
    by (simp add: map_of_dict_set)
  ultimately show ?thesis by blast
qed

text \<open>
  An instance: the manifest of \<open>fsC\<close> bumped from \<open>1.0.0\<close> to \<open>1.0.1\<close>; \<open>id\<close> is kept.
\<close>

theorem successful_update_on_disk_witness:
  "stat fsC manifest_path = Some (File text_before)
   \<and> loads example_codec text_before = Inr (PyDict doc_before)
   \<and> map_of doc_before ''version'' = Some (PyStr ''1.0.0'')
   \<and> increment_version ''1.0.0'' ''patch'' = Inr ''1.0.1''
   \<and> reads_back example_codec (PyDict (dict_set doc_before ''version'' (PyStr ''1.0.1'')))
   \<and> update_template_version example_codec no_faults fsC manifest_path ''patch'' False
        = (Inr True, [(manifest_path, File (text_after @ [newline])), ([''t''], Dir)])
   \<and> (\<exists>bytes' d'. stat [(manifest_path, File (text_after @ [newline])), ([''t''], Dir)] manifest_path = Some (File bytes')
           \<and> loads example_codec bytes' = Inr (PyDict d')
           \<and> map_of d' ''version'' = Some (PyStr ''1.0.1'')
           \<and> map_of d' ''id'' = Some (PyStr ''t''))"
proof -
  have 1: "stat fsC manifest_path = Some (File text_before)" by code_simp
  have 2: "loads example_codec text_before = Inr (PyDict doc_before)" by code_simp
  have 3: "map_of doc_before ''version'' = Some (PyStr ''1.0.0'')" by code_simp
  have 4: "increment_version ''1.0.0'' ''patch'' = Inr ''1.0.1''" by code_simp
  have 5: "reads_back example_codec (PyDict (dict_set doc_before ''version'' (PyStr ''1.0.1'')))"
    by code_simp
  have 6: "update_template_version example_codec no_faults fsC manifest_path ''patch'' False
        = (Inr True, [(manifest_path, File (text_after @ [newline])), ([''t''], Dir)])" by code_simp
  have 7: "map_of doc_before ''id'' = Some (PyStr ''t'')" by code_simp
  from successful_update_on_disk[OF 1 2 3 4 5 6] obtain bytes' d' where
    r: "stat [(manifest_path, File (text_after @ [newline])), ([''t''], Dir)] manifest_path = Some (File bytes')"
      "loads example_codec bytes' = Inr (PyDict d')"
      "map_of d' ''version'' = Some (PyStr ''1.0.1'')"
      "\<forall>key. key \<noteq> ''version'' \<longrightarrow> map_of d' key = map_of doc_before key"
    by blast
  from r(4) 7 have "map_of d' ''id'' = Some (PyStr ''t'')" by simp
  with r 1 2 3 4 5 6 show ?thesis by blast
qed

section \<open>Properties of the entry points\<close>







text \<open>
  Claim C9. When the version bump is requested and its child process exits with a code
  other than 0, \<open>main\<close> of \<open>publish_templates.py\<close> returns the exit code 1, and the bump
  is the only subprocess of the run: the publishing command is never started.
\<close>

theorem failed_bump_skips_publish:
  assumes "pub_update_version args" and "run (bump_cmd rt args) = Exited rc" and "rc \<noteq> 0"
  shows "publish_main run rt args = (Inr 1, [bump_cmd rt args])
         \<and> publish_cmd args \<notin> set (snd (publish_main run rt args))"
proof -
  from assms have "publish_main run rt args = (Inr 1, [bump_cmd rt args])"
    by (simp add: publish_main_def bump_step_def run_checked_def)
  moreover have "publish_cmd args \<noteq> bump_cmd rt args"
    by (simp add: publish_cmd_def bump_cmd_def)
  ultimately show ?thesis by simp
qed

text \<open>
  An instance: the bump exits with code 1.
\<close>

theorem failed_bump_skips_publish_witness:
  "pub_update_version args_P \<and> bump_fails (bump_cmd rt_P args_P) = Exited 1 \<and> (1::int) \<noteq> 0
   \<and> publish_main bump_fails rt_P args_P
       = (Inr 1, [[''python3'', ''scripts/bump_version.py'', ''--level'', ''patch'', ''--target'', ''./src'', ''--commit'']])"
proof -
  have 1: "pub_update_version args_P" by code_simp
  have 2: "bump_fails (bump_cmd rt_P args_P) = Exited 1" by code_simp
  have 3: "(1::int) \<noteq> 0" by simp
  have 4: "bump_cmd rt_P args_P = [''python3'', ''scripts/bump_version.py'', ''--level'', ''patch'', ''--target'', ''./src'', ''--commit'']"
    by code_simp
  from failed_bump_skips_publish[of args_P bump_fails rt_P 1, OF 1 2 3] 1 2 3 4 show ?thesis by simp
qed

end
